theory Spec2Isabelle
  imports Complex_Main "HOL-Library.Monad_Syntax"
begin

section \<open>JavaScript values of lib/neural-network.js\<close>

text \<open>
  Numbers are modelled in exact real arithmetic: \<open>Num r\<close> is a finite number, \<open>NaN\<close> is
  not-a-number. \<open>NaN\<close> also stands for \<^verbatim>\<open>undefined\<close> wherever the program reads a number,
  since every arithmetic operation turns \<^verbatim>\<open>undefined\<close> into \<^verbatim>\<open>NaN\<close>. Rounding, overflow
  and the infinities of IEEE-754 doubles are outside this number type.
\<close>

datatype number = NaN | Num real

fun nadd :: "number \<Rightarrow> number \<Rightarrow> number" where
  "nadd (Num a) (Num b) = Num (a + b)"
| "nadd _ _ = NaN"

fun nsub :: "number \<Rightarrow> number \<Rightarrow> number" where
  "nsub (Num a) (Num b) = Num (a - b)"
| "nsub _ _ = NaN"

fun nmul :: "number \<Rightarrow> number \<Rightarrow> number" where
  "nmul (Num a) (Num b) = Num (a * b)"
| "nmul _ _ = NaN"

text \<open>
  Division: \<^verbatim>\<open>0 / 0\<close> is \<^verbatim>\<open>NaN\<close>. Every division of the program by a zero divisor has a
  zero dividend (an empty sum over an empty length, or a count over a sum of counts that
  contains it), so the infinite quotients are never needed.
\<close>

fun ndiv :: "number \<Rightarrow> number \<Rightarrow> number" where
  "ndiv (Num a) (Num b) = (if b = 0 then NaN else Num (a / b))"
| "ndiv _ _ = NaN"

fun nneg :: "number \<Rightarrow> number" where
  "nneg (Num a) = Num (- a)"
| "nneg NaN = NaN"

fun nexp :: "number \<Rightarrow> number" where
  "nexp (Num a) = Num (exp a)"
| "nexp NaN = NaN"

text \<open>\<^verbatim>\<open>a > b\<close>: false as soon as one side is \<^verbatim>\<open>NaN\<close>.\<close>

fun ngt :: "number \<Rightarrow> number \<Rightarrow> bool" where
  "ngt (Num a) (Num b) = (a > b)"
| "ngt _ _ = False"

text \<open>Truthiness of a number: \<^verbatim>\<open>0\<close> and \<^verbatim>\<open>NaN\<close> (and \<^verbatim>\<open>undefined\<close>) are falsy.\<close>

fun truthy :: "number \<Rightarrow> bool" where
  "truthy (Num a) = (a \<noteq> 0)"
| "truthy NaN = False"

text \<open>\<^verbatim>\<open>x || d\<close> on numbers.\<close>

definition num_or :: "number \<Rightarrow> number \<Rightarrow> number" where
  "num_or x d = (if truthy x then x else d)"

text \<open>\<^verbatim>\<open>options.x || d\<close>: an option that is not supplied reads as \<^verbatim>\<open>undefined\<close>.\<close>

definition opt_or :: "number option \<Rightarrow> number \<Rightarrow> number" where
  "opt_or x d = (case x of None \<Rightarrow> d | Some v \<Rightarrow> num_or v d)"

text \<open>
  \<^verbatim>\<open>new Array(size)\<close> with a number: the length of the new array, or \<open>None\<close> for the
  \<^verbatim>\<open>RangeError\<close> JavaScript throws unless the number is whole and from 0 to \<open>2\<^sup>3\<^sup>2 - 1\<close>.
\<close>

definition array_length :: "number \<Rightarrow> nat option" where
  "array_length sz =
     (case sz of NaN \<Rightarrow> None
      | Num r \<Rightarrow> if 0 \<le> r \<and> r < 4294967296 \<and> r = real_of_int \<lfloor>r\<rfloor> then Some (nat \<lfloor>r\<rfloor>)
                 else None)"

text \<open>
  The number of iterations of \<^verbatim>\<open>for (var i = 0; i < bound; i++)\<close>: none when the bound is
  \<^verbatim>\<open>NaN\<close>, \<^verbatim>\<open>undefined\<close> or not positive.
\<close>

definition loop_count :: "number \<Rightarrow> nat" where
  "loop_count b = (case b of NaN \<Rightarrow> 0 | Num r \<Rightarrow> nat \<lceil>r\<rceil>)"

type_synonym vec = "number list"

text \<open>
  An array whose elements are arrays or objects: a hole, or an element never written, reads
  as \<^verbatim>\<open>undefined\<close>, here \<open>None\<close>. A field that is \<^verbatim>\<open>null\<close> is \<open>None\<close> one level up.
\<close>

type_synonym 'a arr = "'a option list"

text \<open>\<^verbatim>\<open>a[i]\<close> on an array of numbers: out of range is \<^verbatim>\<open>undefined\<close>.\<close>

definition vget :: "vec \<Rightarrow> nat \<Rightarrow> number" where
  "vget a i = (if i < length a then a ! i else NaN)"

text \<open>\<^verbatim>\<open>a[i] = v\<close> on an array of numbers: JavaScript extends the array, leaving holes.\<close>

definition vset :: "vec \<Rightarrow> nat \<Rightarrow> number \<Rightarrow> vec" where
  "vset a i v = (if i < length a then a[i := v] else a @ replicate (i - length a) NaN @ [v])"

text \<open>\<^verbatim>\<open>a[i]\<close> on an array of arrays: \<open>None\<close> is \<^verbatim>\<open>undefined\<close>.\<close>

definition aget :: "'a arr \<Rightarrow> nat \<Rightarrow> 'a option" where
  "aget a i = (if i < length a then a ! i else None)"

definition aset :: "'a arr \<Rightarrow> nat \<Rightarrow> 'a \<Rightarrow> 'a arr" where
  "aset a i v =
     (if i < length a then a[i := Some v] else a @ replicate (i - length a) None @ [Some v])"

text \<open>
  A property read \<^verbatim>\<open>f[i]\<close> where \<^verbatim>\<open>f\<close> may be \<^verbatim>\<open>null\<close> or \<^verbatim>\<open>undefined\<close>, followed by a use of the
  result as an object: \<open>None\<close> is the \<^verbatim>\<open>TypeError\<close> JavaScript throws.
\<close>

definition row :: "'a arr option \<Rightarrow> nat \<Rightarrow> 'a option" where
  "row f i = (case f of None \<Rightarrow> None | Some a \<Rightarrow> aget a i)"

text \<open>\<^verbatim>\<open>f[i] = v\<close> where \<^verbatim>\<open>f\<close> may be \<^verbatim>\<open>null\<close> or \<^verbatim>\<open>undefined\<close> (a \<^verbatim>\<open>TypeError\<close>).\<close>

definition put_row :: "'a arr option \<Rightarrow> nat \<Rightarrow> 'a \<Rightarrow> 'a arr option" where
  "put_row f i v = (case f of None \<Rightarrow> None | Some a \<Rightarrow> Some (aset a i v))"

text \<open>A \<^verbatim>\<open>for\<close> loop over the listed values whose body may throw.\<close>

primrec for_each :: "'a list \<Rightarrow> ('a \<Rightarrow> 's \<Rightarrow> 's option) \<Rightarrow> 's \<Rightarrow> 's option" where
  "for_each [] body s = Some s"
| "for_each (x # xs) body s = Option.bind (body x s) (for_each xs body)"

section \<open>The network object\<close>

text \<open>
  A lookup table is a JavaScript object from keys to indices, kept as the list of its
  entries in enumeration order.
\<close>

datatype key = Idx nat | Str string

type_synonym lookup = "(key \<times> nat) list"

text \<open>
  JavaScript arrays are objects, and the methods take and keep references to them. Every
  array of numbers that a field of the network holds was made by \<^verbatim>\<open>initialize\<close> (or
  \<^verbatim>\<open>fromJSON\<close>) for this one place and is written through this place only, so the fields
  hold the elements of their arrays. The one exception is \<^verbatim>\<open>outputs[0]\<close>: line 102 stores
  there the array the caller passed, which may be an array the network holds at another
  place (the array \<^verbatim>\<open>runInput\<close> returned before is \<^verbatim>\<open>outputs[outputLayer]\<close> itself).

  A \<open>place\<close> names an array of numbers held by the network. An \<open>array\<close> passed to a method is
  \<open>Own v\<close>, an array with the elements \<open>v\<close> that the network holds nowhere but possibly at
  \<^verbatim>\<open>outputs[0]\<close>, or \<open>Held p\<close>, the very array the network holds at \<open>p\<close>.
\<close>

datatype place =
    OutputsAt nat
  | DeltasAt nat
  | ErrorsAt nat
  | BiasesAt nat
  | WeightsAt nat nat
  | ChangesAt nat nat

datatype array = Own vec | Held place

text \<open>
  The fields of the network. \<open>shared_input\<close> is not a field of the program: \<open>Some p\<close> says that
  \<^verbatim>\<open>outputs[0]\<close> is the array held at the place \<open>p\<close>, and row 0 of \<open>outputs\<close> is then not
  read.
\<close>

record net =
  learningRate :: number
  momentum :: number
  hiddenSizes :: "number list option"
  binaryThresh :: number
  sizes :: "number list option"
  outputLayer :: "int option"
  biases :: "vec arr option"
  weights :: "vec arr arr option"
  outputs :: "vec arr option"
  deltas :: "vec arr option"
  changes :: "vec arr arr option"
  errors :: "vec arr option"
  inputLookup :: "lookup option"
  outputLookup :: "lookup option"
  shared_input :: "place option"

text \<open>The array at a place, or \<open>None\<close> when there is none (\<^verbatim>\<open>undefined\<close>).\<close>

definition held :: "net \<Rightarrow> place \<Rightarrow> vec option" where
  "held n p =
     (case p of
        OutputsAt l \<Rightarrow> row (outputs n) l
      | DeltasAt l \<Rightarrow> row (deltas n) l
      | ErrorsAt l \<Rightarrow> row (errors n) l
      | BiasesAt l \<Rightarrow> row (biases n) l
      | WeightsAt l j \<Rightarrow> Option.bind (row (weights n) l) (\<lambda>r. aget r j)
      | ChangesAt l j \<Rightarrow> Option.bind (row (changes n) l) (\<lambda>r. aget r j))"

text \<open>
  \<^verbatim>\<open>this.outputs[layer]\<close>, read as an array of numbers: \<open>None\<close> is the \<^verbatim>\<open>TypeError\<close> of a use
  of \<^verbatim>\<open>undefined\<close> or \<^verbatim>\<open>null\<close>.
\<close>

definition output_row :: "net \<Rightarrow> nat \<Rightarrow> vec option" where
  "output_row n layer =
     (case outputs n of None \<Rightarrow> None
      | Some outs \<Rightarrow>
          (case (if layer = 0 then shared_input n else None) of
             None \<Rightarrow> aget outs layer
           | Some p \<Rightarrow> held n p))"

text \<open>The elements of an array that was passed to a method, at the time they are read.\<close>

definition elements :: "net \<Rightarrow> array \<Rightarrow> vec option" where
  "elements n a =
     (case a of Own v \<Rightarrow> Some v
      | Held p \<Rightarrow> if p = OutputsAt 0 then output_row n 0 else held n p)"

text \<open>The constructor's options: \<open>None\<close> is an option that is not supplied.\<close>

record net_options =
  opt_learningRate :: "number option"
  opt_momentum :: "number option"
  opt_hiddenLayers :: "number list option"
  opt_binaryThresh :: "number option"

definition NeuralNetwork :: "net_options \<Rightarrow> net" where
  "NeuralNetwork options =
     \<lparr> learningRate = opt_or (opt_learningRate options) (Num 0.3),
       momentum = opt_or (opt_momentum options) (Num 0.1),
       hiddenSizes = opt_hiddenLayers options,
       binaryThresh = opt_or (opt_binaryThresh options) (Num 0.5),
       sizes = None, outputLayer = None, biases = None, weights = None, outputs = None,
       deltas = None, changes = None, errors = None,
       inputLookup = None, outputLookup = None, shared_input = None \<rparr>"

subsection \<open>Random weights\<close>

text \<open>
  \<^verbatim>\<open>Math.random()\<close> is a tape of draws: \<open>g 0\<close> is the next draw, and a function that draws
  \<open>n\<close> numbers returns the tape shifted by \<open>n\<close>.
\<close>

type_synonym rng = "nat \<Rightarrow> real"

definition randomWeight :: "real \<Rightarrow> number" where
  "randomWeight r = Num (r * 0.4 - 0.2)"

text \<open>
  \<^verbatim>\<open>zeros(size)\<close> and \<^verbatim>\<open>randos(size)\<close> start with \<^verbatim>\<open>new Array(size)\<close>: \<open>None\<close> is its
  \<^verbatim>\<open>RangeError\<close>. The loop \<^verbatim>\<open>i < size\<close> then runs \<open>size\<close> times.
\<close>

definition zeros :: "number \<Rightarrow> vec option" where
  "zeros sz = map_option (\<lambda>k. replicate k (Num 0)) (array_length sz)"

definition randos :: "number \<Rightarrow> rng \<Rightarrow> (vec \<times> rng) option" where
  "randos sz g =
     map_option (\<lambda>k. (map (\<lambda>i. randomWeight (g i)) [0..<k], (\<lambda>i. g (i + k)))) (array_length sz)"

subsection \<open>initialize\<close>

text \<open>
  The loop over the nodes of one layer, lines 67 to 73, for the weights: each node draws
  \<open>prevSize\<close> weights, in node order.
\<close>

primrec randos_rows :: "nat \<Rightarrow> number \<Rightarrow> rng \<Rightarrow> (vec list \<times> rng) option" where
  "randos_rows 0 prevSize g = Some ([], g)"
| "randos_rows (Suc k) prevSize g = do {
     (w, g') \<leftarrow> randos prevSize g;
     (ws, g'') \<leftarrow> randos_rows k prevSize g';
     Some (w # ws, g'') }"

text \<open>
  One iteration of the loop over the layers, lines 53 to 74. \<open>z\<close> is the value of
  \<^verbatim>\<open>zeros(size)\<close>; once it is made, \<^verbatim>\<open>size\<close> is a valid length, \<^verbatim>\<open>new Array(size)\<close> of lines
  63 and 65 has as many holes and the loop over the nodes runs as many times. The bias row
  is drawn whether or not the network is kept (line 61 is outside the guard); the weight
  rows are drawn only when it is not kept.
\<close>

definition init_layer :: "bool \<Rightarrow> number list \<Rightarrow> nat \<Rightarrow> net \<times> rng \<Rightarrow> (net \<times> rng) option" where
  "init_layer keep szs layer = (\<lambda>(n, g). do {
     let sz = szs ! layer;
     z \<leftarrow> zeros sz;
     d \<leftarrow> put_row (deltas n) layer z;
     e \<leftarrow> put_row (errors n) layer z;
     out \<leftarrow> (if keep then Some (outputs n)
             else map_option Some (put_row (outputs n) layer z));
     let n = n\<lparr>deltas := Some d, errors := Some e, outputs := out\<rparr>;
     if layer > 0 then do {
       (bs, g) \<leftarrow> randos sz g;
       b \<leftarrow> put_row (biases n) layer bs;
       let n = n\<lparr>biases := Some b\<rparr>;
       let prevSize = szs ! (layer - 1);
       (n, g) \<leftarrow> (if keep then Some (n, g)
                  else do {
                    (ws, g') \<leftarrow> randos_rows (length z) prevSize g;
                    w \<leftarrow> put_row (weights n) layer (map Some ws);
                    Some (n\<lparr>weights := Some w\<rparr>, g') });
       zp \<leftarrow> (if z = [] then Some [] else zeros prevSize);
       c \<leftarrow> put_row (changes n) layer (map Some (replicate (length z) zp));
       Some (n\<lparr>changes := Some c\<rparr>, g)
     } else Some (n, g) })"

text \<open>
  With \<^verbatim>\<open>keepNetworkIntact\<close>, \<^verbatim>\<open>initialize\<close> replaces the arrays of \<^verbatim>\<open>deltas\<close>, \<^verbatim>\<open>errors\<close> and
  \<^verbatim>\<open>changes\<close> and the bias rows of the layers from 1 on. When \<^verbatim>\<open>outputs[0]\<close> is one of the
  arrays that are replaced, it keeps the old array, which no place holds any more: row 0
  of \<open>outputs\<close> then holds its elements.
\<close>

definition replaced :: "nat \<Rightarrow> place \<Rightarrow> bool" where
  "replaced layers p =
     (case p of
        OutputsAt l \<Rightarrow> False
      | DeltasAt l \<Rightarrow> True
      | ErrorsAt l \<Rightarrow> True
      | BiasesAt l \<Rightarrow> 0 < l \<and> l < layers
      | WeightsAt l j \<Rightarrow> False
      | ChangesAt l j \<Rightarrow> True)"

definition release :: "nat \<Rightarrow> net \<Rightarrow> net" where
  "release layers n =
     (case shared_input n of
        None \<Rightarrow> n
      | Some p \<Rightarrow>
          if replaced layers p
          then n\<lparr>outputs := map_option
                   (\<lambda>outs. case held n p of None \<Rightarrow> outs[0 := None] | Some v \<Rightarrow> aset outs 0 v)
                   (outputs n),
                 shared_input := None\<rparr>
          else n)"

definition initialize :: "number list \<Rightarrow> bool \<Rightarrow> net \<times> rng \<Rightarrow> (net \<times> rng) option" where
  "initialize szs keepNetworkIntact = (\<lambda>(n, g).
     let n = n\<lparr>sizes := Some szs, outputLayer := Some (int (length szs) - 1)\<rparr>;
         n = (if \<not> keepNetworkIntact
              then n\<lparr>biases := Some [], weights := Some [], outputs := Some [],
                     shared_input := None\<rparr>
              else release (length szs) n);
         n = n\<lparr>deltas := Some [], changes := Some [], errors := Some []\<rparr>
     in for_each [0..<length szs] (init_layer keepNetworkIntact szs) (n, g))"

subsection \<open>runInput\<close>

text \<open>
  The number of the layers the loops visit: \<^verbatim>\<open>layer <= this.outputLayer\<close>, where a \<^verbatim>\<open>null\<close>
  output layer compares as \<^verbatim>\<open>0\<close>.
\<close>

definition layer_bound :: "net \<Rightarrow> nat" where
  "layer_bound n = (case outputLayer n of None \<Rightarrow> 1 | Some ol \<Rightarrow> nat (ol + 1))"

text \<open>
  \<^verbatim>\<open>node < this.sizes[layer]\<close>: a \<^verbatim>\<open>TypeError\<close> when \<^verbatim>\<open>sizes\<close> is \<^verbatim>\<open>null\<close>; no iteration when
  \<^verbatim>\<open>sizes[layer]\<close> is \<^verbatim>\<open>undefined\<close>.
\<close>

definition node_count :: "net \<Rightarrow> nat \<Rightarrow> nat option" where
  "node_count n layer =
     (case sizes n of None \<Rightarrow> None
      | Some szs \<Rightarrow> Some (if layer < length szs then loop_count (szs ! layer) else 0))"

definition sigmoid :: "number \<Rightarrow> number" where
  "sigmoid s = ndiv (Num 1) (nadd (Num 1) (nexp (nneg s)))"

text \<open>
  Lines 108 to 111: \<^verbatim>\<open>sum += weights[k] * input[k]\<close> for every \<^verbatim>\<open>k\<close> below
  \<^verbatim>\<open>weights.length\<close>; \<^verbatim>\<open>input\<close> is read only when there is a weight.
\<close>

definition weighted_sum :: "vec \<Rightarrow> vec option \<Rightarrow> number \<Rightarrow> number option" where
  "weighted_sum w input s =
     (if w = [] then Some s
      else (case input of None \<Rightarrow> None
            | Some x \<Rightarrow> Some (foldl (\<lambda>s k. nadd s (nmul (w ! k) (vget x k))) s [0..<length w])))"

text \<open>
  The body of the loop over the nodes, lines 106 to 112. \<^verbatim>\<open>input\<close> is a reference to an
  array, or \<^verbatim>\<open>undefined\<close>: its elements are read when the node is computed, after the
  writes of the nodes before it.
\<close>

definition run_node :: "nat \<Rightarrow> array option \<Rightarrow> nat \<Rightarrow> net \<Rightarrow> net option" where
  "run_node layer input node n = do {
     wl \<leftarrow> row (weights n) layer;
     bl \<leftarrow> row (biases n) layer;
     w \<leftarrow> aget wl node;
     s \<leftarrow> weighted_sum w (Option.bind input (elements n)) (vget bl node);
     outs \<leftarrow> outputs n;
     ol \<leftarrow> aget outs layer;
     Some (n\<lparr>outputs := Some (aset outs layer (vset ol node (sigmoid s)))\<rparr>) }"

text \<open>
  One iteration of the loop over the layers, lines 105 to 114. The state is the network,
  the variable \<^verbatim>\<open>input\<close> (the array \<^verbatim>\<open>outputs[layer]\<close> after the iteration, or
  \<^verbatim>\<open>undefined\<close>) and the elements of the array \<^verbatim>\<open>output\<close>, which no later iteration writes.
\<close>

definition run_layer ::
  "nat \<Rightarrow> net \<times> array option \<times> vec option \<Rightarrow> (net \<times> array option \<times> vec option) option" where
  "run_layer layer = (\<lambda>(n, input, output). do {
     cnt \<leftarrow> node_count n layer;
     n' \<leftarrow> for_each [0..<cnt] (run_node layer input) n;
     outs \<leftarrow> outputs n';
     Some (n', map_option (\<lambda>_. Held (OutputsAt layer)) (aget outs layer), aget outs layer) })"

text \<open>
  Line 102, \<^verbatim>\<open>this.outputs[0] = input\<close>: the array itself is stored, not its elements.
\<close>

definition store_input :: "array \<Rightarrow> net \<Rightarrow> net option" where
  "store_input input n =
     (case outputs n of None \<Rightarrow> None
      | Some outs \<Rightarrow>
          (case input of
             Own v \<Rightarrow> Some (n\<lparr>outputs := Some (aset outs 0 v), shared_input := None\<rparr>)
           | Held p \<Rightarrow> Some (if p = OutputsAt 0 then n else n\<lparr>shared_input := Some p\<rparr>)))"

text \<open>
  The result is the returned value and the network. The returned array is
  \<^verbatim>\<open>outputs[outputLayer]\<close> itself (or \<^verbatim>\<open>undefined\<close>); the result holds its elements.
\<close>

definition runInput :: "array \<Rightarrow> net \<Rightarrow> (vec option \<times> net) option" where
  "runInput input n = do {
     n0 \<leftarrow> store_input input n;
     (n', _, output) \<leftarrow> for_each [1..<layer_bound n0] run_layer (n0, Some input, None);
     Some (output, n') }"

subsection \<open>calculateDeltas\<close>

text \<open>
  Lines 210 to 213: the error of an inner node, summed over \<^verbatim>\<open>this.deltas[layer + 1]\<close>.
\<close>

definition back_error :: "net \<Rightarrow> nat \<Rightarrow> nat \<Rightarrow> number option" where
  "back_error n layer node = do {
     ds \<leftarrow> row (deltas n) (layer + 1);
     for_each [0..<length ds]
       (\<lambda>k err. do {
          wl \<leftarrow> row (weights n) (layer + 1);
          wk \<leftarrow> aget wl k;
          Some (nadd err (nmul (ds ! k) (vget wk node))) })
       (Num 0) }"

definition delta_node :: "array \<Rightarrow> nat \<Rightarrow> nat \<Rightarrow> net \<Rightarrow> net option" where
  "delta_node target layer node n = do {
     ol \<leftarrow> output_row n layer;
     let output = vget ol node;
     err \<leftarrow> (if outputLayer n = Some (int layer)
             then map_option (\<lambda>t. nsub (vget t node) output) (elements n target)
             else back_error n layer node);
     es \<leftarrow> errors n;
     el \<leftarrow> aget es layer;
     ds \<leftarrow> deltas n;
     dl \<leftarrow> aget ds layer;
     Some (n\<lparr>errors := Some (aset es layer (vset el node err)),
             deltas := Some (aset ds layer
               (vset dl node (nmul (nmul err output) (nsub (Num 1) output))))\<rparr>) }"

definition delta_layer :: "array \<Rightarrow> nat \<Rightarrow> net \<Rightarrow> net option" where
  "delta_layer target layer n = do {
     cnt \<leftarrow> node_count n layer;
     for_each [0..<cnt] (delta_node target layer) n }"

text \<open>The layers are visited from the output layer down to layer 0.\<close>

definition calculateDeltas :: "array \<Rightarrow> net \<Rightarrow> net option" where
  "calculateDeltas target n =
     (case outputLayer n of
        None \<Rightarrow> (case sizes n of None \<Rightarrow> None | Some szs \<Rightarrow> Some n)
      | Some ol \<Rightarrow> for_each (rev [0..<nat (ol + 1)]) (delta_layer target) n)"

subsection \<open>adjustWeights\<close>

text \<open>Lines 233 to 239, for one incoming index \<^verbatim>\<open>k\<close>.\<close>

definition adjust_weight :: "number \<Rightarrow> nat \<Rightarrow> nat \<Rightarrow> number \<Rightarrow> vec \<Rightarrow> nat \<Rightarrow> net \<Rightarrow> net option"
  where
  "adjust_weight lr layer node delta incoming k n = do {
     cs \<leftarrow> changes n;
     cl \<leftarrow> aget cs layer;
     cn \<leftarrow> aget cl node;
     let change = nadd (nmul (nmul lr delta) (vget incoming k)) (nmul (momentum n) (vget cn k));
     ws \<leftarrow> weights n;
     wl \<leftarrow> aget ws layer;
     wn \<leftarrow> aget wl node;
     Some (n\<lparr>changes := Some (aset cs layer (aset cl node (vset cn k change))),
             weights := Some (aset ws layer (aset wl node (vset wn k (nadd (vget wn k) change))))\<rparr>) }"

text \<open>
  Lines 230 to 241, for one node. \<^verbatim>\<open>incoming\<close> is the array \<^verbatim>\<open>outputs[layer - 1]\<close>. Its
  elements are taken as they are when the node is reached: the loop over \<^verbatim>\<open>k\<close> writes index
  \<^verbatim>\<open>k\<close> of two rows after it has read \<^verbatim>\<open>incoming[k]\<close>, and no array grows in it, so that
  within the node every read of \<^verbatim>\<open>incoming\<close> and of its length sees these elements.
\<close>

definition adjust_node :: "number \<Rightarrow> nat \<Rightarrow> nat \<Rightarrow> net \<Rightarrow> net option" where
  "adjust_node lr layer node n = do {
     dl \<leftarrow> row (deltas n) layer;
     let delta = vget dl node;
     inc \<leftarrow> output_row n (layer - 1);
     n' \<leftarrow> for_each [0..<length inc] (adjust_weight lr layer node delta inc) n;
     bs \<leftarrow> biases n';
     bl \<leftarrow> aget bs layer;
     Some (n'\<lparr>biases := Some (aset bs layer (vset bl node (nadd (vget bl node) (nmul lr delta))))\<rparr>) }"

definition adjust_layer :: "number \<Rightarrow> nat \<Rightarrow> net \<Rightarrow> net option" where
  "adjust_layer lr layer n = do {
     outs \<leftarrow> outputs n;
     cnt \<leftarrow> node_count n layer;
     for_each [0..<cnt] (adjust_node lr layer) n }"

definition adjustWeights :: "number \<Rightarrow> net \<Rightarrow> net option" where
  "adjustWeights lr n = for_each [1..<layer_bound n] (adjust_layer lr) n"

subsection \<open>trainPattern\<close>

definition mse :: "vec \<Rightarrow> number" where
  "mse errs =
     ndiv (foldl (\<lambda>s i. nadd s (nmul (errs ! i) (errs ! i))) (Num 0) [0..<length errs])
          (Num (real (length errs)))"

text \<open>
  \<^verbatim>\<open>this.errors[this.outputLayer]\<close>, then its \<^verbatim>\<open>length\<close> in \<^verbatim>\<open>mse\<close>: a \<^verbatim>\<open>TypeError\<close> when there is
  no such row.
\<close>

definition output_errors :: "net \<Rightarrow> vec option" where
  "output_errors n =
     (case outputLayer n of None \<Rightarrow> None
      | Some ol \<Rightarrow> if ol < 0 then None else row (errors n) (nat ol))"

definition trainPattern :: "array \<Rightarrow> array \<Rightarrow> number \<Rightarrow> net \<Rightarrow> (number \<times> net) option" where
  "trainPattern input target lr0 n = do {
     let lr = num_or lr0 (learningRate n);
     (_, n1) \<leftarrow> runInput input n;
     n2 \<leftarrow> calculateDeltas target n1;
     n3 \<leftarrow> adjustWeights lr n2;
     errs \<leftarrow> output_errors n3;
     Some (mse errs, n3) }"

section \<open>Training and testing\<close>

subsection \<open>Data sets and lib/lookup.js\<close>

text \<open>
  A sparse record (a JavaScript object of numbers) is the list of its entries in enumeration
  order. The examples of one data set agree on their shape (section 3 of the specification):
  the inputs are all arrays or all records, and so are the outputs. A single example that
  \<^verbatim>\<open>formatData\<close> wraps into an array (line 252) is the list of this one example. The arrays
  of a data set are the caller's: the network holds none of them when \<^verbatim>\<open>train\<close> or \<^verbatim>\<open>test\<close>
  is called.
\<close>

type_synonym hash = "(key \<times> number) list"

datatype dataset =
    ArrArr "(vec \<times> vec) list"
  | RecArr "(hash \<times> vec) list"
  | ArrRec "(vec \<times> hash) list"
  | RecRec "(hash \<times> hash) list"

text \<open>
  The functions of \<^verbatim>\<open>lib/lookup.js\<close>, which is not part of the sources at hand, are
  parameters of the model: every statement below holds for whatever they compute.
\<close>

record lookup_lib =
  buildLookup :: "hash list \<Rightarrow> lookup"
  toArray :: "lookup \<Rightarrow> hash \<Rightarrow> vec"
  lookupFromHash :: "key list \<Rightarrow> lookup"

text \<open>
  Lines 260 to 266 and 270 to 276 of \<^verbatim>\<open>formatData\<close>, for one side of the examples: the lookup
  table is built when the network has none, and every record becomes an array.
\<close>

definition encode :: "lookup_lib \<Rightarrow> lookup option \<Rightarrow> hash list \<Rightarrow> lookup \<times> vec list" where
  "encode lk table recs =
     (let t = (case table of None \<Rightarrow> buildLookup lk recs | Some t \<Rightarrow> t)
      in (t, map (toArray lk t) recs))"

text \<open>
  \<^verbatim>\<open>formatData\<close>: \<open>None\<close> is the \<^verbatim>\<open>TypeError\<close> of \<^verbatim>\<open>data[0].input\<close> on an empty array.
\<close>

definition formatData :: "lookup_lib \<Rightarrow> dataset \<Rightarrow> net \<Rightarrow> ((vec \<times> vec) list \<times> net) option" where
  "formatData lk data n =
     (case data of
        ArrArr d \<Rightarrow> if d = [] then None else Some (d, n)
      | RecArr d \<Rightarrow> if d = [] then None
          else (case encode lk (inputLookup n) (map fst d) of (t, xs) \<Rightarrow>
            Some (zip xs (map snd d), n\<lparr>inputLookup := Some t\<rparr>))
      | ArrRec d \<Rightarrow> if d = [] then None
          else (case encode lk (outputLookup n) (map snd d) of (t, ys) \<Rightarrow>
            Some (zip (map fst d) ys, n\<lparr>outputLookup := Some t\<rparr>))
      | RecRec d \<Rightarrow> if d = [] then None
          else (case encode lk (inputLookup n) (map fst d) of (t, xs) \<Rightarrow>
            (case encode lk (outputLookup n) (map snd d) of (u, ys) \<Rightarrow>
              Some (zip xs ys, n\<lparr>inputLookup := Some t, outputLookup := Some u\<rparr>))))"

subsection \<open>train\<close>

text \<open>
  The option \<^verbatim>\<open>iterations\<close> is any number, also an infinite one: the loop of \<^verbatim>\<open>train\<close>
  compares its counter with it.
\<close>

datatype limit = Finite number | PlusInfinity | MinusInfinity

text \<open>\<^verbatim>\<open>options.iterations || d\<close>: \<^verbatim>\<open>0\<close> and \<^verbatim>\<open>NaN\<close> are falsy, the infinities are not.\<close>

definition limit_or :: "limit option \<Rightarrow> limit \<Rightarrow> limit" where
  "limit_or x d =
     (case x of None \<Rightarrow> d
      | Some (Finite v) \<Rightarrow> if truthy v then Finite v else d
      | Some PlusInfinity \<Rightarrow> PlusInfinity
      | Some MinusInfinity \<Rightarrow> MinusInfinity)"

text \<open>\<^verbatim>\<open>i < iterations\<close> for the counter \<^verbatim>\<open>i\<close> of the loop.\<close>

definition below :: "nat \<Rightarrow> limit \<Rightarrow> bool" where
  "below i l =
     (case l of Finite v \<Rightarrow> ngt v (Num (real i)) | PlusInfinity \<Rightarrow> True | MinusInfinity \<Rightarrow> False)"

text \<open>
  The options of \<^verbatim>\<open>train\<close>; \<open>None\<close> is an option that is not supplied. The two periods are
  whole numbers. \<^verbatim>\<open>log\<close> is absent (or falsy), a function, or another truthy value, which
  stands for \<^verbatim>\<open>console.log\<close>.
\<close>

datatype log_option = NoLog | LogFunction | LogConsole

record train_options =
  o_iterations :: "limit option"
  o_errorThresh :: "number option"
  o_log :: log_option
  o_logPeriod :: "nat option"
  o_learningRate :: "number option"
  o_callback :: bool
  o_callbackPeriod :: "nat option"
  o_keepNetworkIntact :: bool

text \<open>\<^verbatim>\<open>options.x || d\<close> on a whole number.\<close>

definition nat_or :: "nat option \<Rightarrow> nat \<Rightarrow> nat" where
  "nat_or x d = (case x of None \<Rightarrow> d | Some v \<Rightarrow> if v = 0 then d else v)"

text \<open>The local variables of lines 129 to 135.\<close>

record train_config =
  iterations :: limit
  errorThresh :: number
  log :: log_option
  logPeriod :: nat
  c_learningRate :: number
  callback :: bool
  callbackPeriod :: nat

definition train_settings :: "train_options \<Rightarrow> net \<Rightarrow> train_config" where
  "train_settings options n =
     \<lparr> iterations = limit_or (o_iterations options) (Finite (Num 20000)),
       errorThresh = opt_or (o_errorThresh options) (Num 0.005),
       log = o_log options,
       logPeriod = nat_or (o_logPeriod options) 10,
       c_learningRate = num_or (opt_or (o_learningRate options) (learningRate n)) (Num 0.3),
       callback = o_callback options,
       callbackPeriod = nat_or (o_callbackPeriod options) 10 \<rparr>"

text \<open>Lines 136 to 149: the sizes of the layers.\<close>

definition train_sizes :: "net \<Rightarrow> (vec \<times> vec) list \<Rightarrow> number list" where
  "train_sizes n d =
     (let inputSize = length (fst (hd d)); outputSize = length (snd (hd d))
      in Num (real inputSize) #
         (case hiddenSizes n of None \<Rightarrow> [Num (real (max 3 (inputSize div 2)))] | Some hs \<Rightarrow> hs) @
         [Num (real outputSize)])"

text \<open>
  The calls of the two hooks are recorded as events. The hooks are taken to return and to
  leave the network alone, as section 4.4 of the specification requires of them.
\<close>

datatype event = Logged log_option nat number | CalledBack nat number

definition hooks :: "train_config \<Rightarrow> nat \<Rightarrow> number \<Rightarrow> event list" where
  "hooks c i err =
     (if log c \<noteq> NoLog \<and> i mod logPeriod c = 0 then [Logged (log c) i err] else []) @
     (if callback c \<and> i mod callbackPeriod c = 0 then [CalledBack i err] else [])"

text \<open>Lines 155 to 159: one pass over the examples; the state is the sum and the network.\<close>

definition train_epoch :: "(vec \<times> vec) list \<Rightarrow> number \<Rightarrow> net \<Rightarrow> (number \<times> net) option" where
  "train_epoch d lr n =
     for_each d
       (\<lambda>(input, target) (s, n). do {
          (err, n') \<leftarrow> trainPattern (Own input) (Own target) lr n;
          Some (nadd s err, n') })
       (Num 0, n)"

text \<open>
  A call that comes to an end returns a value or throws. The loop of \<^verbatim>\<open>train\<close> need not
  come to an end: the result \<open>None\<close> of the two functions below is a call that runs forever.
\<close>

datatype 'a outcome = Returned 'a | Thrown

text \<open>
  The loop of lines 154 to 168, from the state in which \<^verbatim>\<open>i\<close> epochs have run. The result
  is \<^verbatim>\<open>error\<close>, \<^verbatim>\<open>i\<close>, the network and the events.
\<close>

partial_function (option) train_loop ::
  "train_config \<Rightarrow> (vec \<times> vec) list \<Rightarrow> nat \<Rightarrow> number \<Rightarrow> net \<Rightarrow> event list \<Rightarrow>
     (number \<times> nat \<times> net \<times> event list) outcome option" where
  "train_loop c d i err n evs =
     (if below i (iterations c) \<and> ngt err (errorThresh c) then
        (case train_epoch d (c_learningRate c) n of
           None \<Rightarrow> Some Thrown
         | Some (s, n') \<Rightarrow>
             train_loop c d (Suc i) (ndiv s (Num (real (length d)))) n'
               (evs @ hooks c i (ndiv s (Num (real (length d))))))
      else Some (Returned (err, i, n, evs)))"

record train_result =
  r_error :: number
  r_iterations :: nat

definition train ::
  "lookup_lib \<Rightarrow> dataset \<Rightarrow> train_options \<Rightarrow> net \<times> rng \<Rightarrow>
     (train_result \<times> event list \<times> net \<times> rng) outcome option" where
  "train lk data options = (\<lambda>(n, g).
     (case formatData lk data n of
        None \<Rightarrow> Some Thrown
      | Some (d, n) \<Rightarrow>
          (let c = train_settings options n in
           (case initialize (train_sizes n d) (o_keepNetworkIntact options) (n, g) of
              None \<Rightarrow> Some Thrown
            | Some (n, g) \<Rightarrow>
                (case train_loop c d 0 (Num 1) n [] of
                   None \<Rightarrow> None
                 | Some Thrown \<Rightarrow> Some Thrown
                 | Some (Returned (err, i, n, evs)) \<Rightarrow>
                     Some (Returned (\<lparr> r_error = err, r_iterations = i \<rparr>, evs, n, g)))))))"

subsection \<open>test\<close>

text \<open>\<^verbatim>\<open>a != b\<close> and \<^verbatim>\<open>a == b\<close> on numbers: \<^verbatim>\<open>NaN\<close> differs from every number.\<close>

fun num_eq :: "number \<Rightarrow> number \<Rightarrow> bool" where
  "num_eq (Num a) (Num b) = (a = b)"
| "num_eq _ _ = False"

text \<open>
  \<^verbatim>\<open>values.indexOf(max(values))\<close>: \<^verbatim>\<open>-1\<close> when the array is empty or holds a \<^verbatim>\<open>NaN\<close>, since
  no element is then equal to the maximum; else the first index of the greatest element.
\<close>

fun the_num :: "number \<Rightarrow> real" where
  "the_num (Num a) = a"
| "the_num NaN = 0"

definition index_of_max :: "vec \<Rightarrow> number" where
  "index_of_max v =
     (if v = [] \<or> NaN \<in> set v then Num (- 1)
      else Num (real (length (takeWhile (\<lambda>x. x \<noteq> Num (Max (the_num ` set v))) v))))"

record counts =
  trueNeg :: nat
  truePos :: nat
  falseNeg :: nat
  falsePos :: nat

record test_state =
  t_net :: net
  t_sum :: number
  t_misclasses :: "((vec \<times> vec) \<times> number \<times> number) list"
  t_counts :: counts

text \<open>Lines 312 to 319: the labels \<^verbatim>\<open>actual\<close> and \<^verbatim>\<open>expected\<close> of one example.\<close>

definition labels :: "bool \<Rightarrow> number \<Rightarrow> vec \<Rightarrow> vec \<Rightarrow> number \<times> number" where
  "labels isBinary thresh output target =
     (if isBinary then (if ngt (vget output 0) thresh then Num 1 else Num 0, vget target 0)
      else (index_of_max output, index_of_max target))"

text \<open>Lines 331 to 342.\<close>

definition count :: "number \<Rightarrow> number \<Rightarrow> counts \<Rightarrow> counts" where
  "count actual expected c =
     (if num_eq actual (Num 0) \<and> num_eq expected (Num 0) then c\<lparr>trueNeg := Suc (trueNeg c)\<rparr>
      else if num_eq actual (Num 1) \<and> num_eq expected (Num 1) then c\<lparr>truePos := Suc (truePos c)\<rparr>
      else if num_eq actual (Num 0) \<and> num_eq expected (Num 1) then c\<lparr>falseNeg := Suc (falseNeg c)\<rparr>
      else if num_eq actual (Num 1) \<and> num_eq expected (Num 0) then c\<lparr>falsePos := Suc (falsePos c)\<rparr>
      else c)"

text \<open>
  The body of the loop of lines 307 to 349. \<open>None\<close> is the \<^verbatim>\<open>TypeError\<close> of \<^verbatim>\<open>runInput\<close>, or
  of reading the \<^verbatim>\<open>undefined\<close> it returned.
\<close>

definition test_example :: "bool \<Rightarrow> vec \<times> vec \<Rightarrow> test_state \<Rightarrow> test_state option" where
  "test_example isBinary = (\<lambda>(input, target) s. do {
     (out, n) \<leftarrow> runInput (Own input) (t_net s);
     output \<leftarrow> out;
     let (actual, expected) = labels isBinary (binaryThresh n) output target;
     let mis = (if \<not> num_eq actual expected then [((input, target), actual, expected)] else []);
     let c = (if isBinary then count actual expected (t_counts s) else t_counts s);
     let errs = map (\<lambda>i. nsub (vget target i) (output ! i)) [0..<length output];
     Some \<lparr> t_net = n, t_sum = nadd (t_sum s) (mse errs),
            t_misclasses = t_misclasses s @ mis, t_counts = c \<rparr> })"

record binary_stats =
  b_counts :: counts
  b_total :: nat
  b_precision :: number
  b_recall :: number
  b_accuracy :: number

record stats =
  s_error :: number
  s_misclasses :: "((vec \<times> vec) \<times> number \<times> number) list"
  s_binary :: "binary_stats option"

definition test :: "lookup_lib \<Rightarrow> dataset \<Rightarrow> net \<Rightarrow> (stats \<times> net) option" where
  "test lk data n = do {
     (d, n) \<leftarrow> formatData lk data n;
     let isBinary = (length (snd (hd d)) = 1);
     s \<leftarrow> for_each d (test_example isBinary)
            \<lparr> t_net = n, t_sum = Num 0, t_misclasses = [],
              t_counts = \<lparr> trueNeg = 0, truePos = 0, falseNeg = 0, falsePos = 0 \<rparr> \<rparr>;
     let c = t_counts s;
     let total = Num (real (length d));
     Some (\<lparr> s_error = ndiv (t_sum s) total,
             s_misclasses = t_misclasses s,
             s_binary = (if isBinary then Some
               \<lparr> b_counts = c, b_total = length d,
                 b_precision = ndiv (Num (real (truePos c))) (Num (real (truePos c + falsePos c))),
                 b_recall = ndiv (Num (real (truePos c))) (Num (real (truePos c + falseNeg c))),
                 b_accuracy = ndiv (Num (real (trueNeg c + truePos c))) total \<rparr>
               else None) \<rparr>, t_net s) }"

section \<open>Invariants used in the proofs\<close>

text \<open>What the loop of \<^verbatim>\<open>initialize\<close> keeps: the buffers it writes are arrays.\<close>

definition init_inv :: "bool \<Rightarrow> number list \<Rightarrow> net \<times> rng \<Rightarrow> bool" where
  "init_inv keep szs = (\<lambda>(n, g). deltas n \<noteq> None \<and> errors n \<noteq> None \<and> changes n \<noteq> None \<and>
     biases n \<noteq> None \<and> (\<not> keep \<longrightarrow> outputs n \<noteq> None \<and> weights n \<noteq> None) \<and>
     sizes n = Some szs \<and> outputLayer n = Some (int (length szs) - 1))"

section \<open>The specification's formulas and the shape of a network\<close>

text \<open>A row after its first entries have been written, one by one from index 0.\<close>

definition overwrite :: "'a list \<Rightarrow> 'a list \<Rightarrow> 'a list" where
  "overwrite vs old = vs @ drop (length vs) old"

text \<open>An array of \<open>m\<close> finite numbers, and an array of \<open>m\<close> such rows of width \<open>p\<close>.\<close>

definition tabv :: "nat \<Rightarrow> (nat \<Rightarrow> real) \<Rightarrow> vec" where
  "tabv m f = map (\<lambda>j. Num (f j)) [0..<m]"

definition tabm :: "nat \<Rightarrow> nat \<Rightarrow> (nat \<Rightarrow> nat \<Rightarrow> real) \<Rightarrow> vec arr" where
  "tabm m p f = map (\<lambda>j. Some (tabv p (f j))) [0..<m]"

text \<open>
  The activations in the words of section 4.2 of the specification: layer 0 holds the input,
  and unit \<open>j\<close> of layer \<open>l + 1\<close> holds the sigmoid of its bias plus the weighted sum of the
  activations of layer \<open>l\<close>. \<open>W l j k\<close> is \<^verbatim>\<open>weight[l][j][k]\<close> and \<open>B l j\<close> is \<^verbatim>\<open>bias[l][j]\<close>.
\<close>

fun act :: "nat list \<Rightarrow> (nat \<Rightarrow> nat \<Rightarrow> nat \<Rightarrow> real) \<Rightarrow> (nat \<Rightarrow> nat \<Rightarrow> real) \<Rightarrow> (nat \<Rightarrow> real) \<Rightarrow>
    nat \<Rightarrow> nat \<Rightarrow> real" where
  "act szs W B x 0 j = x j"
| "act szs W B x (Suc l) j =
     1 / (1 + exp (- (B (Suc l) j + (\<Sum>k<szs ! l. W (Suc l) j k * act szs W B x l k))))"


text \<open>The sizes of a network whose layers have the widths \<open>szs\<close>.\<close>

definition lengths :: "nat list \<Rightarrow> number list" where
  "lengths szs = map (\<lambda>k. Num (real k)) szs"

text \<open>
  A network with loaded parameters: its sizes are \<open>szs\<close>, and for every layer \<open>l\<close> from 1 on
  \<^verbatim>\<open>weights[l]\<close> holds \<open>szs ! l\<close> rows of \<open>szs ! (l - 1)\<close> finite weights and \<^verbatim>\<open>biases[l]\<close> holds
  \<open>szs ! l\<close> finite biases. Layer 0 of both arrays is not constrained.
\<close>

definition params_at :: "net \<Rightarrow> nat list \<Rightarrow> (nat \<Rightarrow> nat \<Rightarrow> nat \<Rightarrow> real) \<Rightarrow> (nat \<Rightarrow> nat \<Rightarrow> real) \<Rightarrow>
    nat \<Rightarrow> bool" where
  "params_at n szs W B l \<longleftrightarrow>
     row (weights n) l = Some (tabm (szs ! l) (szs ! (l - 1)) (W l)) \<and>
     row (biases n) l = Some (tabv (szs ! l) (B l))"

definition has_params :: "net \<Rightarrow> nat list \<Rightarrow> (nat \<Rightarrow> nat \<Rightarrow> nat \<Rightarrow> real) \<Rightarrow> (nat \<Rightarrow> nat \<Rightarrow> real) \<Rightarrow>
    bool" where
  "has_params n szs W B \<longleftrightarrow>
     sizes n = Some (lengths szs) \<and> outputLayer n = Some (int (length szs) - 1) \<and>
     (\<forall>l\<in>{1..<length szs}. params_at n szs W B l)"













section \<open>Training in the words of the specification\<close>










section \<open>Concrete networks and tapes\<close>

definition const_tape :: "real \<Rightarrow> rng" where
  "const_tape r = (\<lambda>_. r)"

definition no_options :: net_options where
  "no_options = \<lparr> opt_learningRate = None, opt_momentum = None, opt_hiddenLayers = None,
     opt_binaryThresh = None \<rparr>"

text \<open>A network of one input and one output whose bias and weight have left the range of
  the random initial values.\<close>

definition trained_net :: net where
  "trained_net = (NeuralNetwork no_options)\<lparr>sizes := Some [Num 1, Num 1], outputLayer := Some 1,
     biases := Some [None, Some [Num 5]], weights := Some [None, Some [Some [Num 7]]],
     outputs := Some [Some [Num 0], Some [Num 0]],
     deltas := Some [Some [Num 0], Some [Num 0]], changes := Some [None, Some [Some [Num 0]]],
     errors := Some [Some [Num 0], Some [Num 0]]\<rparr>"




section \<open>Loops\<close>

lemma for_each_inv:
  assumes "I s" and "\<And>x s. x \<in> set xs \<Longrightarrow> I s \<Longrightarrow> \<exists>s'. body x s = Some s' \<and> I s'"
  shows "\<exists>s'. for_each xs body s = Some s' \<and> I s'"
  using assms
proof (induction xs arbitrary: s)
  case Nil
  then show ?case by simp
next
  case (Cons x xs)
  from Cons.prems obtain s1 where s1: "body x s = Some s1" "I s1"
    by (meson list.set_intros(1))
  have "\<exists>s'. for_each xs body s1 = Some s' \<and> I s'"
    by (rule Cons.IH[OF s1(2)]) (simp add: Cons.prems(2))
  with s1 show ?case by simp
qed




lemma aget_aset_same [simp]: "aget (aset a i v) i = Some v"
  by (simp add: aget_def aset_def nth_append)

lemma aget_aset_other [simp]: "i \<noteq> j \<Longrightarrow> aget (aset a i v) j = aget a j"
  by (auto simp: aget_def aset_def nth_append nth_Cons')

lemma aset_aset_same [simp]: "aset (aset a i v) i w = aset a i w"
  by (auto simp: aset_def list_update_append)


lemma length_aset: "length (aset a i v) = max (length a) (Suc i)"
  by (auto simp: aset_def)

lemma overwrite_Nil [simp]: "overwrite [] old = old"
  by (simp add: overwrite_def)



lemma vget_overwrite_lt: "i < length vs \<Longrightarrow> vget (overwrite vs old) i = vs ! i"
  by (simp add: vget_def overwrite_def nth_append)



section \<open>initialize\<close>

lemma array_length_of_nat [simp]: "k < 4294967296 \<Longrightarrow> array_length (Num (real k)) = Some k"
  by (simp add: array_length_def)

lemma loop_count_of_nat [simp]: "loop_count (Num (real k)) = k"
  by (simp add: loop_count_def)

lemma array_length_loop_count: "array_length sz = Some k \<Longrightarrow> loop_count sz = k"
  by (auto simp: array_length_def loop_count_def split: number.splits if_splits)
    (metis ceiling_of_int)

lemma zeros_Some: "array_length sz = Some k \<Longrightarrow> zeros sz = Some (replicate k (Num 0))"
  by (simp add: zeros_def)

lemma randos_Some:
  "array_length sz = Some k \<Longrightarrow>
   randos sz g = Some (map (\<lambda>i. randomWeight (g i)) [0..<k], (\<lambda>i. g (i + k)))"
  by (simp add: randos_def)

lemma randos_rows_Some:
  "array_length p = Some k \<Longrightarrow> \<exists>ws g'. randos_rows m p g = Some (ws, g') \<and> length ws = m"
proof (induction m arbitrary: g)
  case 0
  show ?case by simp
next
  case (Suc m)
  from Suc.IH[OF Suc.prems, of "\<lambda>i. g (i + k)"] obtain ws g' where
    "randos_rows m p (\<lambda>i. g (i + k)) = Some (ws, g')" "length ws = m"
    by (elim exE conjE)
  then show ?case
    using Suc.prems by (simp add: randos_Some)
qed

lemma for_each_fails:
  "x \<in> set xs \<Longrightarrow> (\<And>s. body x s = None) \<Longrightarrow> for_each xs body s = None"
proof (induction xs arbitrary: s)
  case Nil
  then show ?case by simp
next
  case (Cons a xs)
  show ?case
  proof (cases "body a s")
    case None
    then show ?thesis by simp
  next
    case (Some s')
    with Cons.prems have "x \<in> set xs" by auto
    then have "for_each xs body s' = None"
      by (rule Cons.IH) (rule Cons.prems(2))
    with Some show ?thesis by simp
  qed
qed

lemma init_layer_fails:
  "array_length (szs ! layer) = None \<Longrightarrow> init_layer keep szs layer s = None"
  by (cases s) (simp add: init_layer_def zeros_def)

lemma init_layer_inv:
  assumes "init_inv keep szs s" and "layer < length szs"
    and "\<forall>sz\<in>set szs. array_length sz \<noteq> None"
  shows "\<exists>s'. init_layer keep szs layer s = Some s' \<and> init_inv keep szs s'"
proof -
  obtain n g where s: "s = (n, g)" by (cases s)
  have "szs ! layer \<in> set szs" "szs ! (layer - 1) \<in> set szs"
    using assms(2) by simp_all
  with assms(3) have "array_length (szs ! layer) \<noteq> None" "array_length (szs ! (layer - 1)) \<noteq> None"
    by simp_all
  then obtain k p where k: "array_length (szs ! layer) = Some k"
    and p: "array_length (szs ! (layer - 1)) = Some p"
    by auto
  from randos_rows_Some[OF p, of k "\<lambda>i. g (i + k)"] obtain ws g' where
    ws: "randos_rows k (szs ! (layer - 1)) (\<lambda>i. g (i + k)) = Some (ws, g')"
    by (elim exE conjE)
  show ?thesis
    using assms(1) zeros_Some[OF k] zeros_Some[OF p] randos_Some[OF k, of g] ws unfolding s
    by (auto simp: init_inv_def init_layer_def put_row_def Let_def split: option.splits)
qed

lemma initialize_returns:
  assumes "\<forall>sz\<in>set szs. array_length sz \<noteq> None"
  shows "\<exists>n' g'. initialize szs False (n, g) = Some (n', g') \<and> sizes n' = Some szs \<and>
     outputLayer n' = Some (int (length szs) - 1)"
proof -
  let ?s = "(n\<lparr>sizes := Some szs, outputLayer := Some (int (length szs) - 1),
     biases := Some [], weights := Some [], outputs := Some [], shared_input := None,
     deltas := Some [], changes := Some [], errors := Some []\<rparr>, g)"
  have "init_inv False szs ?s"
    by (simp add: init_inv_def)
  then have "\<exists>s'. for_each [0..<length szs] (init_layer False szs) ?s = Some s' \<and>
      init_inv False szs s'"
    by (rule for_each_inv) (rule init_layer_inv, simp_all add: assms)
  then show ?thesis
    by (auto simp: initialize_def init_inv_def Let_def)
qed

lemma initialize_throws:
  assumes "sz \<in> set szs" and "array_length sz = None"
  shows "initialize szs keep (n, g) = None"
proof -
  from assms(1) obtain layer where l: "layer < length szs" "szs ! layer = sz"
    by (auto simp: in_set_conv_nth)
  then have "layer \<in> set [0..<length szs]" by simp
  then have "for_each [0..<length szs] (init_layer keep szs) s = None" for s
    by (rule for_each_fails) (rule init_layer_fails, simp add: l assms(2))
  then show ?thesis
    by (simp add: initialize_def Let_def)
qed

text \<open>
  C4, as the code has it: \<^verbatim>\<open>initialize\<close> has no check of the number of sizes. Called without
  \<^verbatim>\<open>keepNetworkIntact\<close> it returns normally for every list of sizes that are valid array
  lengths (whole numbers from 0 to \<open>2\<^sup>3\<^sup>2 - 1\<close>), also a list of fewer than two, and leaves a
  network with these sizes and \<^verbatim>\<open>outputLayer = sizes.length - 1\<close>. It throws exactly when a
  size is not a valid array length: the \<^verbatim>\<open>RangeError\<close> of \<^verbatim>\<open>new Array(size)\<close> is its only
  rejection.
\<close>

theorem initialize_rejects_only_invalid_lengths:
  "((\<forall>sz\<in>set szs. array_length sz \<noteq> None) \<longrightarrow>
      (\<exists>n' g'. initialize szs False (n, g) = Some (n', g') \<and> sizes n' = Some szs \<and>
         outputLayer n' = Some (int (length szs) - 1))) \<and>
   ((\<exists>sz\<in>set szs. array_length sz = None) \<longrightarrow> initialize szs False (n, g) = None)"
  using initialize_returns[of szs n g] initialize_throws[of _ szs False n g]
  by (intro conjI impI) (simp, elim bexE, simp)

theorem initialize_rejects_only_invalid_lengths_witness:
  "array_length (Num 3) \<noteq> None \<and>
   (\<exists>n' g'. initialize [Num 3] False (NeuralNetwork no_options, const_tape 0) = Some (n', g') \<and>
      sizes n' = Some [Num 3] \<and> outputLayer n' = Some 0) \<and>
   array_length (Num (5 / 2)) = None \<and> array_length (Num 4294967296) = None \<and>
   array_length (Num (- 1)) = None \<and>
   initialize [Num 3, Num (5 / 2)] False (NeuralNetwork no_options, const_tape 0) = None \<and>
   initialize [Num 4294967296] False (NeuralNetwork no_options, const_tape 0) = None \<and>
   initialize [Num (- 1), Num 2] False (NeuralNetwork no_options, const_tape 0) = None"
proof -
  have a: "array_length (Num 3) \<noteq> None" "array_length (Num (5 / 2)) = None"
    "array_length (Num 4294967296) = None" "array_length (Num (- 1)) = None"
    by (simp_all add: array_length_def)
  note t = initialize_rejects_only_invalid_lengths[of _ "NeuralNetwork no_options" "const_tape 0"]
  from t[of "[Num 3]"] a(1)
  have "\<exists>n' g'. initialize [Num 3] False (NeuralNetwork no_options, const_tape 0) = Some (n', g') \<and>
      sizes n' = Some [Num 3] \<and> outputLayer n' = Some 0"
    by simp
  moreover from t[of "[Num 3, Num (5 / 2)]"] a(2)
  have "initialize [Num 3, Num (5 / 2)] False (NeuralNetwork no_options, const_tape 0) = None"
    by simp
  moreover from t[of "[Num 4294967296]"] a(3)
  have "initialize [Num 4294967296] False (NeuralNetwork no_options, const_tape 0) = None"
    by simp
  moreover from t[of "[Num (- 1), Num 2]"] a(4)
  have "initialize [Num (- 1), Num 2] False (NeuralNetwork no_options, const_tape 0) = None"
    by simp
  ultimately show ?thesis
    using a by simp
qed

text \<open>
  C4, as the claim states it, fails: with no size at all and with a single size,
  \<^verbatim>\<open>initialize\<close> returns a degenerate network instead of failing.
\<close>

theorem initialize_short_sizes_returns:
  "initialize [] False (NeuralNetwork no_options, const_tape 0) =
     Some ((NeuralNetwork no_options)\<lparr>sizes := Some [], outputLayer := Some (- 1),
       biases := Some [], weights := Some [], outputs := Some [],
       deltas := Some [], changes := Some [], errors := Some []\<rparr>, const_tape 0)
   \<and> initialize [Num 3] False (NeuralNetwork no_options, const_tape 0) =
     Some ((NeuralNetwork no_options)\<lparr>sizes := Some [Num 3], outputLayer := Some 0,
       biases := Some [], weights := Some [], outputs := Some [Some [Num 0, Num 0, Num 0]],
       deltas := Some [Some [Num 0, Num 0, Num 0]], changes := Some [],
       errors := Some [Some [Num 0, Num 0, Num 0]]\<rparr>, const_tape 0)"
  by (simp add: initialize_def Let_def init_layer_def put_row_def aset_def zeros_def
      array_length_def numeral_3_eq_3 NeuralNetwork_def)

text \<open>
  C3 at a concrete network: \<^verbatim>\<open>initialize\<close> with \<^verbatim>\<open>keepNetworkIntact\<close> and the same sizes
  keeps the weight \<^verbatim>\<open>7\<close> and replaces the bias \<^verbatim>\<open>5\<close> by a fresh random weight (here
  \<^verbatim>\<open>0.5 * 0.4 - 0.2 = 0\<close>).
\<close>

theorem initialize_keep_redraws_biases:
  "map_option (\<lambda>(n, g). (biases n, weights n))
     (initialize [Num 1, Num 1] True (trained_net, const_tape (1 / 2))) =
   Some (Some [None, Some [Num 0]], Some [None, Some [Some [Num 7]]])"
  by (simp add: initialize_def Let_def init_layer_def put_row_def aset_def zeros_def
      trained_net_def randos_def randomWeight_def const_tape_def upt_rec array_length_def
      release_def NeuralNetwork_def)

section \<open>Options\<close>

lemma train_settings_zero:
  "train_settings (options\<lparr>o_iterations := Some (Finite (Num 0))\<rparr>) n =
     train_settings (options\<lparr>o_iterations := None\<rparr>) n"
  "train_settings (options\<lparr>o_errorThresh := Some (Num 0)\<rparr>) n =
     train_settings (options\<lparr>o_errorThresh := None\<rparr>) n"
  "train_settings (options\<lparr>o_logPeriod := Some 0\<rparr>) n =
     train_settings (options\<lparr>o_logPeriod := None\<rparr>) n"
  "train_settings (options\<lparr>o_callbackPeriod := Some 0\<rparr>) n =
     train_settings (options\<lparr>o_callbackPeriod := None\<rparr>) n"
  "train_settings (options\<lparr>o_learningRate := Some (Num 0)\<rparr>) n =
     train_settings (options\<lparr>o_learningRate := None\<rparr>) n"
  by (simp_all add: train_settings_def nat_or_def limit_or_def opt_or_def num_or_def)

text \<open>
  C10: at \<^verbatim>\<open>train\<close> and at the constructor, a numeric option given as \<^verbatim>\<open>0\<close> gives the same
  result, network and hook calls as the option left out, since \<^verbatim>\<open>0 || d\<close> is \<^verbatim>\<open>d\<close>. With
  \<^verbatim>\<open>iterations: 0\<close> the bound of the loop is 20000, and a constructor \<^verbatim>\<open>learningRate\<close> of \<^verbatim>\<open>0\<close>
  gives the rate \<^verbatim>\<open>0.3\<close>.
\<close>

theorem zero_option_is_default:
  "train lk data (options\<lparr>o_iterations := Some (Finite (Num 0))\<rparr>) s =
     train lk data (options\<lparr>o_iterations := None\<rparr>) s
   \<and> train lk data (options\<lparr>o_errorThresh := Some (Num 0)\<rparr>) s =
     train lk data (options\<lparr>o_errorThresh := None\<rparr>) s
   \<and> train lk data (options\<lparr>o_logPeriod := Some 0\<rparr>) s =
     train lk data (options\<lparr>o_logPeriod := None\<rparr>) s
   \<and> train lk data (options\<lparr>o_callbackPeriod := Some 0\<rparr>) s =
     train lk data (options\<lparr>o_callbackPeriod := None\<rparr>) s
   \<and> train lk data (options\<lparr>o_learningRate := Some (Num 0)\<rparr>) s =
     train lk data (options\<lparr>o_learningRate := None\<rparr>) s
   \<and> NeuralNetwork (opts\<lparr>opt_learningRate := Some (Num 0)\<rparr>) =
     NeuralNetwork (opts\<lparr>opt_learningRate := None\<rparr>)
   \<and> NeuralNetwork (opts\<lparr>opt_momentum := Some (Num 0)\<rparr>) =
     NeuralNetwork (opts\<lparr>opt_momentum := None\<rparr>)
   \<and> NeuralNetwork (opts\<lparr>opt_binaryThresh := Some (Num 0)\<rparr>) =
     NeuralNetwork (opts\<lparr>opt_binaryThresh := None\<rparr>)
   \<and> iterations (train_settings (options\<lparr>o_iterations := Some (Finite (Num 0))\<rparr>) n) = Finite (Num 20000)
   \<and> learningRate (NeuralNetwork (opts\<lparr>opt_learningRate := Some (Num 0)\<rparr>)) = Num 0.3"
proof -
  have t: "train lk data o1 s = train lk data o2 s"
    if "\<And>n. train_settings o1 n = train_settings o2 n"
      and "o_keepNetworkIntact o1 = o_keepNetworkIntact o2" for o1 o2
    using that by (simp add: train_def split_def cong: option.case_cong)
  have c: "NeuralNetwork (opts\<lparr>opt_learningRate := Some (Num 0)\<rparr>) =
        NeuralNetwork (opts\<lparr>opt_learningRate := None\<rparr>)"
      "NeuralNetwork (opts\<lparr>opt_momentum := Some (Num 0)\<rparr>) =
        NeuralNetwork (opts\<lparr>opt_momentum := None\<rparr>)"
      "NeuralNetwork (opts\<lparr>opt_binaryThresh := Some (Num 0)\<rparr>) =
        NeuralNetwork (opts\<lparr>opt_binaryThresh := None\<rparr>)"
    by (simp_all add: NeuralNetwork_def opt_or_def num_or_def)
  have d: "iterations (train_settings (options\<lparr>o_iterations := Some (Finite (Num 0))\<rparr>) n) = Finite (Num 20000)"
      "learningRate (NeuralNetwork (opts\<lparr>opt_learningRate := Some (Num 0)\<rparr>)) = Num 0.3"
    by (simp_all add: train_settings_def nat_or_def limit_or_def NeuralNetwork_def opt_or_def num_or_def)
  show ?thesis
    by (intro conjI t train_settings_zero c d) simp_all
qed

section \<open>The forward pass\<close>

lemma length_tabv [simp]: "length (tabv m f) = m"
  by (simp add: tabv_def)

lemma nth_tabv [simp]: "j < m \<Longrightarrow> tabv m f ! j = Num (f j)"
  by (simp add: tabv_def)

lemma vget_tabv [simp]: "j < m \<Longrightarrow> vget (tabv m f) j = Num (f j)"
  by (simp add: vget_def)


lemma take_tabv: "i \<le> m \<Longrightarrow> take i (tabv m f) = tabv i f"
  by (simp add: tabv_def take_map)

lemma aget_tabm [simp]: "j < m \<Longrightarrow> aget (tabm m p f) j = Some (tabv p (f j))"
  by (simp add: aget_def tabm_def)

lemma tabv_eq_Nil [simp]: "tabv m f = [] \<longleftrightarrow> m = 0"
  by (simp add: tabv_def)

lemma sigmoid_Num [simp]: "sigmoid (Num s) = Num (1 / (1 + exp (- s)))"
proof -
  have "1 + exp (- s) \<noteq> 0"
    using exp_gt_zero[of "- s"] by linarith
  then show ?thesis by (simp add: sigmoid_def)
qed




lemma params_at_outputs [simp]: "params_at (n\<lparr>outputs := x\<rparr>) szs W B l = params_at n szs W B l"
  by (simp add: params_at_def)








lemma has_params_outputs [simp]: "has_params (n\<lparr>outputs := x\<rparr>) szs W B = has_params n szs W B"
  by (simp add: has_params_def)

lemma has_params_shared_input [simp]:
  "has_params (n\<lparr>shared_input := x\<rparr>) szs W B = has_params n szs W B"
  by (simp add: has_params_def params_at_def)

lemma elements_Own [simp]: "elements n (Own v) = Some v"
  by (simp add: elements_def)





lemma act_pos: "0 < act szs W B x (Suc l) j" and act_lt_1: "act szs W B x (Suc l) j < 1"
proof -
  let ?s = "B (Suc l) j + (\<Sum>k<szs ! l. W (Suc l) j k * act szs W B x l k)"
  have "0 < exp (- ?s)" by simp
  then show "0 < act szs W B x (Suc l) j" "act szs W B x (Suc l) j < 1"
    by (simp_all add: add_pos_pos)
qed



subsection \<open>An input that is an array of the network\<close>







section \<open>The backward pass\<close>





















lemma length_tabm [simp]: "length (tabm m p f) = m"
  by (simp add: tabm_def)










section \<open>One training step\<close>



lemma has_params_frame:
  "sizes n' = sizes n \<Longrightarrow> outputLayer n' = outputLayer n \<Longrightarrow> weights n' = weights n \<Longrightarrow>
   biases n' = biases n \<Longrightarrow> has_params n' szs W B = has_params n szs W B"
  by (simp add: has_params_def params_at_def)

lemma has_paramsI:
  assumes "sizes n = Some (lengths szs)" and "outputLayer n = Some (int (length szs) - 1)"
    and "\<And>l. 0 < l \<Longrightarrow> l < length szs \<Longrightarrow>
      row (weights n) l = Some (tabm (szs ! l) (szs ! (l - 1)) (W l)) \<and>
      row (biases n) l = Some (tabv (szs ! l) (B l))"
  shows "has_params n szs W B"
  using assms by (simp add: has_params_def params_at_def)
















subsection \<open>A target that is an array of the network\<close>





section \<open>train\<close>

subsection \<open>One epoch computes the errors and the steps of the specification\<close>





subsection \<open>The loop returns when the iterations are bounded\<close>

lemma below_Finite [simp]: "below i (Finite (Num b)) \<longleftrightarrow> real i < b"
  by (simp add: below_def)


subsection \<open>initialize leaves a network of the shape of its sizes\<close>







lemma zeros_tabv: "replicate m (Num 0) = tabv m (\<lambda>j. 0)"
  by (simp add: tabv_def map_replicate_const)


lemma nth_lengths [simp]: "l < length szs \<Longrightarrow> lengths szs ! l = Num (real (szs ! l))"
  by (simp add: lengths_def)

lemma length_lengths [simp]: "length (lengths szs) = length szs"
  by (simp add: lengths_def)




subsection \<open>The result of train\<close>










subsection \<open>The loop need not return when the iterations are unbounded\<close>




end
